theory Spec2Isabelle
  imports Main
begin

section \<open>MySqlToHiveOperator: data model\<close>

subsection \<open>Python values and ordered dictionaries\<close>

text \<open>
  The operator's keyword arguments are dynamically typed. Only the values that the
  constructor inspects for truthiness are modelled as Python values: \<open>None\<close>, booleans,
  integers, strings and dictionaries (string keys and values, in insertion order).
\<close>

datatype pyval =
  PyNone
| PyBool bool
| PyInt int
| PyStr string
| PyDict "(string \<times> string) list"

text \<open>Python's truth value testing: \<open>None\<close>, \<open>False\<close>, zero and empty containers are falsy.\<close>

fun truthy :: "pyval \<Rightarrow> bool" where
  "truthy PyNone = False"
| "truthy (PyBool b) = b"
| "truthy (PyInt i) = (i \<noteq> 0)"
| "truthy (PyStr s) = (s \<noteq> [])"
| "truthy (PyDict d) = (d \<noteq> [])"

text \<open>\<^verbatim>\<open>a or b\<close> evaluates to \<open>a\<close> when \<open>a\<close> is truthy and to \<open>b\<close> otherwise.\<close>

definition py_or :: "pyval \<Rightarrow> pyval \<Rightarrow> pyval" where
  "py_or a b = (if truthy a then a else b)"

fun is_mapping :: "pyval \<Rightarrow> bool" where
  "is_mapping (PyDict d) = True"
| "is_mapping v = False"

text \<open>
  A \<open>dict\<close> / \<open>OrderedDict\<close> is an association list in insertion order with at most one
  entry per key. \<^verbatim>\<open>d[k] = v\<close> replaces the value of an existing key where it stands and
  appends a new key at the end.
\<close>

fun dict_setitem :: "('k \<times> 'v) list \<Rightarrow> 'k \<Rightarrow> 'v \<Rightarrow> ('k \<times> 'v) list" where
  "dict_setitem [] k v = [(k, v)]"
| "dict_setitem (e # d) k v = (if fst e = k then (k, v) # d else e # dict_setitem d k v)"

text \<open>A dictionary display \<^verbatim>\<open>{k1: v1, k2: v2, ...}\<close> stores its items from left to right.\<close>

fun dict_display :: "('k \<times> 'v) list \<Rightarrow> ('k \<times> 'v) list \<Rightarrow> ('k \<times> 'v) list" where
  "dict_display d [] = d"
| "dict_display d (kv # kvs) = dict_display (dict_setitem d (fst kv) (snd kv)) kvs"

text \<open>\<^verbatim>\<open>d.get(k, default)\<close>.\<close>

definition dict_get :: "('k \<times> 'v) list \<Rightarrow> 'k \<Rightarrow> 'v \<Rightarrow> 'v" where
  "dict_get d k dflt = (case map_of d k of Some v \<Rightarrow> v | None \<Rightarrow> dflt)"

subsection \<open>Type mapping\<close>

text \<open>
  \<^verbatim>\<open>MySQLdb.constants.FIELD_TYPE\<close> belongs to the MySQLdb driver, not to this repository.
  The twelve constants that \<^verbatim>\<open>type_map\<close> reads are the fields of a record that the model takes
  as a parameter.
\<close>

record FIELD_TYPE =
  BIT :: int
  DECIMAL :: int
  NEWDECIMAL :: int
  DOUBLE :: int
  FLOAT :: int
  INT24 :: int
  LONG :: int
  LONGLONG :: int
  SHORT :: int
  TINY :: int
  YEAR :: int
  TIMESTAMP :: int

text \<open>The values that the MySQL client protocol (and so MySQLdb) gives these constants.\<close>

definition MySQLdb_FIELD_TYPE :: FIELD_TYPE where
  "MySQLdb_FIELD_TYPE =
     \<lparr>BIT = 16, DECIMAL = 0, NEWDECIMAL = 246, DOUBLE = 5, FLOAT = 4, INT24 = 9,
      LONG = 3, LONGLONG = 8, SHORT = 2, TINY = 1, YEAR = 13, TIMESTAMP = 7\<rparr>"

text \<open>The items of the dictionary display in \<^verbatim>\<open>type_map\<close>, in source order.\<close>

definition type_map_items :: "FIELD_TYPE \<Rightarrow> (int \<times> string) list" where
  "type_map_items types =
     [(BIT types, ''INT''),
      (DECIMAL types, ''DOUBLE''),
      (NEWDECIMAL types, ''DOUBLE''),
      (DOUBLE types, ''DOUBLE''),
      (FLOAT types, ''DOUBLE''),
      (INT24 types, ''INT''),
      (LONG types, ''BIGINT''),
      (LONGLONG types, ''DECIMAL(38,0)''),
      (SHORT types, ''INT''),
      (TINY types, ''SMALLINT''),
      (YEAR types, ''INT''),
      (TIMESTAMP types, ''TIMESTAMP'')]"

definition type_map :: "FIELD_TYPE \<Rightarrow> int \<Rightarrow> string" where
  "type_map types mysql_type =
     dict_get (dict_display [] (type_map_items types)) mysql_type ''STRING''"

subsection \<open>The operator\<close>

text \<open>
  The attributes that \<^verbatim>\<open>__init__\<close> stores on \<open>self\<close>. \<open>partition\<close> is kept as a Python
  value, since the constructor tests its truth value; \<open>quoting\<close> is one of the integer
  \<^verbatim>\<open>csv.QUOTE_*\<close> constants.
\<close>

record operator =
  self_sql :: string
  self_hive_table :: string
  self_partition :: pyval
  self_create :: bool
  self_recreate :: bool
  self_delimiter :: string
  self_quoting :: int
  self_quotechar :: string
  self_escapechar :: "string option"
  self_mysql_conn_id :: string
  self_hive_cli_conn_id :: string
  self_tblproperties :: "(string \<times> string) list option"

text \<open>\<^verbatim>\<open>csv.QUOTE_MINIMAL\<close> of the standard library.\<close>

definition QUOTE_MINIMAL :: int where
  "QUOTE_MINIMAL = 0"

text \<open>
  \<^verbatim>\<open>__init__\<close>, with the assignments in source order: \<open>self.partition\<close> is first set to the
  argument and, last but one, to \<^verbatim>\<open>partition or {}\<close>. \<^verbatim>\<open>quoting or csv.QUOTE_MINIMAL\<close> replaces
  \<open>None\<close> and \<open>0\<close> by \<open>QUOTE_MINIMAL\<close>; \<^verbatim>\<open>str(delimiter)\<close> of a string is that string. The
  keyword arguments passed on to \<open>BaseOperator\<close> are left out.
\<close>

definition init :: "string \<Rightarrow> string \<Rightarrow> bool \<Rightarrow> bool \<Rightarrow> pyval \<Rightarrow> string \<Rightarrow> int option \<Rightarrow> string
    \<Rightarrow> string option \<Rightarrow> string \<Rightarrow> string \<Rightarrow> (string \<times> string) list option \<Rightarrow> operator" where
  "init sql hive_table create recreate partition' delimiter quoting quotechar escapechar
        mysql_conn_id hive_cli_conn_id tblproperties =
     \<lparr>self_sql = sql,
      self_hive_table = hive_table,
      self_partition = partition',
      self_create = create,
      self_recreate = recreate,
      self_delimiter = delimiter,
      self_quoting = (case quoting of None \<Rightarrow> QUOTE_MINIMAL
                      | Some q \<Rightarrow> if q \<noteq> 0 then q else QUOTE_MINIMAL),
      self_quotechar = quotechar,
      self_escapechar = escapechar,
      self_mysql_conn_id = mysql_conn_id,
      self_hive_cli_conn_id = hive_cli_conn_id,
      self_tblproperties = tblproperties\<rparr>
     \<lparr>self_partition := py_or partition' (PyDict [])\<rparr>"

subsection \<open>Field dictionary\<close>

text \<open>
  A column descriptor is an item of \<^verbatim>\<open>cursor.description\<close>; the loop reads its first two
  components, the column name \<^verbatim>\<open>field[0]\<close> and the type code \<^verbatim>\<open>field[1]\<close>.
\<close>

type_synonym column = "string \<times> int"

text \<open>
  \<^verbatim>\<open>for field in cursor.description: field_dict[field[0]] = self.type_map(field[1])\<close>
\<close>

fun field_dict_loop :: "FIELD_TYPE \<Rightarrow> column list \<Rightarrow> (string \<times> string) list
    \<Rightarrow> (string \<times> string) list" where
  "field_dict_loop types [] field_dict = field_dict"
| "field_dict_loop types (field # description) field_dict =
     field_dict_loop types description
       (dict_setitem field_dict (fst field) (type_map types (snd field)))"

subsection \<open>The world that \<open>execute\<close> acts on\<close>

datatype sqlval = Null | IntVal int | StrVal string

type_synonym row = "sqlval list"

text \<open>
  The calls that \<open>execute\<close> makes into its collaborators, each of which may raise.
  \<open>Writerow i\<close> is fetching row \<open>i\<close> from the cursor and writing it to the file.
\<close>

datatype call =
  HiveCliHook_init
| MySqlHook_init
| Get_conn
| Conn_cursor
| Cursor_execute
| NamedTemporaryFile_open
| Csv_writer
| Writerow nat
| File_flush
| Cursor_close
| Conn_close

datatype exn = Raised call | TypeError | TableNotFoundError

text \<open>A table of the destination: its columns and the batches loaded into it.\<close>

record table_state =
  columns :: "(string \<times> string) list"
  field_terminator :: string
  properties :: "(string \<times> string) list option"
  loaded :: "(pyval \<times> row list) list"

text \<open>The arguments of \<^verbatim>\<open>hive.load_file\<close>.\<close>

record load_file_args =
  arg_filepath :: string
  arg_table :: string
  arg_field_dict :: "(string \<times> string) list"
  arg_create :: bool
  arg_partition :: pyval
  arg_delimiter :: string
  arg_recreate :: bool
  arg_tblproperties :: "(string \<times> string) list option"

datatype event =
  Log string
| Connect
| OpenCursor
| RunQuery string
| CreateTempFile string
| WriteRow row
| Flush
| CloseCursor
| CloseConn
| LoadFile load_file_args
| CloseTempFile

text \<open>
  The state: the source connection and cursor, the temporary file (its handle, what has
  been written to the handle and what has reached the disk), the local \<open>field_dict\<close>, the
  destination's tables, and the events so far, oldest first.
\<close>

record state =
  conn_open :: bool
  cursor_open :: bool
  cursor_description :: "column list option"
  cursor_rows :: "row list"
  file_exists :: bool
  file_open :: bool
  file_buffer :: "row list"
  file_disk :: "row list"
  field_dict :: "(string \<times> string) list"
  warehouse :: "(string \<times> table_state) list"
  trace :: "event list"

text \<open>
  What the collaborators do in one run: which calls raise, the driver's type constants,
  the result of the query (\<^verbatim>\<open>cursor.description\<close> is \<open>None\<close> for a statement without a result
  set) and the name of the temporary file.
\<close>

record env =
  raises :: "call \<Rightarrow> bool"
  mysql_types :: FIELD_TYPE
  query_description :: "column list option"
  query_rows :: "row list"
  tmp_name :: string

definition initial_state :: "(string \<times> table_state) list \<Rightarrow> state" where
  "initial_state wh =
     \<lparr>conn_open = False, cursor_open = False, cursor_description = None, cursor_rows = [],
      file_exists = False, file_open = False, file_buffer = [], file_disk = [],
      field_dict = [], warehouse = wh, trace = []\<rparr>"

subsection \<open>Statements\<close>

text \<open>A statement maps a state to the exception it raises, if any, and the new state.\<close>

type_synonym step = "state \<Rightarrow> exn option \<times> state"

definition emit :: "event \<Rightarrow> state \<Rightarrow> state" where
  "emit e s = s\<lparr>trace := trace s @ [e]\<rparr>"

definition ext_call :: "env \<Rightarrow> call \<Rightarrow> (state \<Rightarrow> state) \<Rightarrow> step" where
  "ext_call env c effect s = (if raises env c then (Some (Raised c), s) else (None, effect s))"

text \<open>A block runs its statements in order and stops at the first exception.\<close>

fun run_block :: "step list \<Rightarrow> step" where
  "run_block [] s = (None, s)"
| "run_block (st # sts) s =
     (case st s of (None, s') \<Rightarrow> run_block sts s' | (Some e, s') \<Rightarrow> (Some e, s'))"

definition log_info :: "string \<Rightarrow> step" where
  "log_info msg s = (None, emit (Log msg) s)"

definition get_conn :: "env \<Rightarrow> step" where
  "get_conn env = ext_call env Get_conn (\<lambda>s. emit Connect (s\<lparr>conn_open := True\<rparr>))"

definition conn_cursor :: "env \<Rightarrow> step" where
  "conn_cursor env = ext_call env Conn_cursor (\<lambda>s. emit OpenCursor (s\<lparr>cursor_open := True\<rparr>))"

definition cursor_execute :: "env \<Rightarrow> string \<Rightarrow> step" where
  "cursor_execute env sql =
     ext_call env Cursor_execute
       (\<lambda>s. emit (RunQuery sql)
          (s\<lparr>cursor_description := query_description env, cursor_rows := query_rows env\<rparr>))"

text \<open>
  \<^verbatim>\<open>with NamedTemporaryFile("wb") as f: body\<close>. The file is created and opened; when the body
  is left, normally or by an exception, the handle is closed and the file, created with
  the default \<^verbatim>\<open>delete=True\<close>, is removed; an exception of the body propagates.
\<close>

definition with_NamedTemporaryFile :: "env \<Rightarrow> step \<Rightarrow> step" where
  "with_NamedTemporaryFile env body s =
     (if raises env NamedTemporaryFile_open then (Some (Raised NamedTemporaryFile_open), s)
      else
        (case body (emit (CreateTempFile (tmp_name env))
                     (s\<lparr>file_exists := True, file_open := True,
                        file_buffer := [], file_disk := []\<rparr>)) of
          (r, s') \<Rightarrow>
            (r, emit CloseTempFile
                  (s'\<lparr>file_exists := False, file_open := False,
                      file_buffer := [], file_disk := []\<rparr>))))"

text \<open>
  \<^verbatim>\<open>csv.writer(f, delimiter=..., quoting=..., quotechar=..., escapechar=..., encoding="utf-8")\<close>
  builds the writer; it may raise and writes nothing.
\<close>

definition csv_writer :: "env \<Rightarrow> step" where
  "csv_writer env = ext_call env Csv_writer (\<lambda>s. s)"

text \<open>
  \<^verbatim>\<open>field_dict = OrderedDict()\<close> and the loop over \<^verbatim>\<open>cursor.description\<close>; iterating \<open>None\<close>
  raises \<open>TypeError\<close>.
\<close>

definition build_field_dict :: "env \<Rightarrow> step" where
  "build_field_dict env s =
     (case cursor_description s of
        None \<Rightarrow> (Some TypeError, s\<lparr>field_dict := []\<rparr>)
      | Some description \<Rightarrow>
          (None, s\<lparr>field_dict := field_dict_loop (mysql_types env) description []\<rparr>))"

text \<open>
  \<^verbatim>\<open>csv_writer.writerows(cursor)\<close>: the rows of the cursor are fetched and written one by
  one, into the handle's buffer. The bytes of a record are produced by the csv library;
  the file is modelled as the list of records written.
\<close>

fun writerows :: "env \<Rightarrow> nat \<Rightarrow> row list \<Rightarrow> step" where
  "writerows env i [] s = (None, s)"
| "writerows env i (r # rs) s =
     (if raises env (Writerow i) then (Some (Raised (Writerow i)), s\<lparr>cursor_rows := rs\<rparr>)
      else writerows env (Suc i) rs
             (emit (WriteRow r) (s\<lparr>cursor_rows := rs, file_buffer := file_buffer s @ [r]\<rparr>)))"

definition csv_writerows :: "env \<Rightarrow> step" where
  "csv_writerows env s = writerows env 0 (cursor_rows s) s"

definition file_flush :: "env \<Rightarrow> step" where
  "file_flush env =
     ext_call env File_flush
       (\<lambda>s. emit Flush (s\<lparr>file_disk := file_disk s @ file_buffer s, file_buffer := []\<rparr>))"

definition cursor_close :: "env \<Rightarrow> step" where
  "cursor_close env = ext_call env Cursor_close (\<lambda>s. emit CloseCursor (s\<lparr>cursor_open := False\<rparr>))"

definition conn_close :: "env \<Rightarrow> step" where
  "conn_close env = ext_call env Conn_close (\<lambda>s. emit CloseConn (s\<lparr>conn_open := False\<rparr>))"

subsection \<open>The loader\<close>

text \<open>
  \<^verbatim>\<open>HiveCliHook.load_file\<close> (airflow.providers.apache.hive.hooks.hive) is not among the
  sources; the four definitions of this subsection follow section 4.4 of the
  specification.
\<close>

text \<open>
  Modelled from the spec: the DROP TABLE that \<^verbatim>\<open>HiveCliHook.load_file\<close> (not among the
  sources) issues; "if \<open>recreate\<close> is true: drop the existing table (if present) before
  creating it".
\<close>

definition drop_table :: "string \<Rightarrow> (string \<times> table_state) list \<Rightarrow> (string \<times> table_state) list" where
  "drop_table name wh = filter (\<lambda>e. fst e \<noteq> name) wh"

text \<open>
  Modelled from the spec: the CREATE TABLE that \<^verbatim>\<open>HiveCliHook.load_file\<close> (not among the
  sources) issues; create-if-absent, "using the Field Dictionary as the column list (in
  order), the same delimiter as the field terminator", with the table properties if given.
\<close>

definition create_table :: "load_file_args \<Rightarrow> (string \<times> table_state) list
    \<Rightarrow> (string \<times> table_state) list" where
  "create_table a wh =
     (case map_of wh (arg_table a) of
        Some t \<Rightarrow> wh
      | None \<Rightarrow>
          wh @ [(arg_table a,
                 \<lparr>columns = arg_field_dict a, field_terminator = arg_delimiter a,
                  properties = arg_tblproperties a, loaded = []\<rparr>)])"

text \<open>
  Modelled from the spec: what \<^verbatim>\<open>HiveCliHook.load_file\<close> (not among the sources) does to
  the destination. If \<open>recreate\<close> is set, the existing table is dropped; if \<open>create\<close> or
  \<open>recreate\<close> is set, the table is created; "if neither create nor recreate is set and the
  table does not exist, fails with TableNotFoundError"; otherwise the contents of the
  staged file are loaded into the table under the static partition given.
\<close>

definition load_into :: "load_file_args \<Rightarrow> row list \<Rightarrow> (string \<times> table_state) list
    \<Rightarrow> exn option \<times> (string \<times> table_state) list" where
  "load_into a staged_rows wh =
     (let wh1 = (if arg_recreate a then drop_table (arg_table a) wh else wh);
          wh2 = (if arg_create a \<or> arg_recreate a then create_table a wh1 else wh1)
      in case map_of wh2 (arg_table a) of
           None \<Rightarrow> (Some TableNotFoundError, wh2)
         | Some t \<Rightarrow>
             (None,
              dict_setitem wh2 (arg_table a)
                (t\<lparr>loaded := loaded t @ [(arg_partition a, staged_rows)]\<rparr>)))"

text \<open>
  Modelled from the spec: \<^verbatim>\<open>HiveCliHook.load_file\<close> (not among the sources) as a statement:
  it reads the staged file as it is on disk and changes nothing but the destination.
\<close>

definition load_file :: "load_file_args \<Rightarrow> step" where
  "load_file a s =
     (case load_into a (file_disk s) (warehouse s) of
        (r, wh) \<Rightarrow> (r, s\<lparr>warehouse := wh\<rparr>))"

subsection \<open>\<open>execute\<close>\<close>

text \<open>The call \<^verbatim>\<open>hive.load_file(f.name, self.hive_table, field_dict=field_dict, ...)\<close>.\<close>

definition hive_load_file :: "env \<Rightarrow> operator \<Rightarrow> step" where
  "hive_load_file env self s =
     (let a = \<lparr>arg_filepath = tmp_name env,
                arg_table = self_hive_table self,
                arg_field_dict = field_dict s,
                arg_create = self_create self,
                arg_partition = self_partition self,
                arg_delimiter = self_delimiter self,
                arg_recreate = self_recreate self,
                arg_tblproperties = self_tblproperties self\<rparr>
      in load_file a (emit (LoadFile a) s))"

definition staging_and_load :: "env \<Rightarrow> operator \<Rightarrow> step" where
  "staging_and_load env self =
     run_block
       [csv_writer env,
        build_field_dict env,
        csv_writerows env,
        file_flush env,
        cursor_close env,
        conn_close env,
        log_info ''Loading file into Hive'',
        hive_load_file env self]"

definition execute :: "env \<Rightarrow> operator \<Rightarrow> step" where
  "execute env self =
     run_block
       [ext_call env HiveCliHook_init (\<lambda>s. s),
        ext_call env MySqlHook_init (\<lambda>s. s),
        log_info ''Dumping MySQL query results to local file'',
        get_conn env,
        conn_cursor env,
        cursor_execute env (self_sql self),
        with_NamedTemporaryFile env (staging_and_load env self)]"

subsection \<open>Reading a trace\<close>

fun is_LoadFile :: "event \<Rightarrow> bool" where
  "is_LoadFile (LoadFile a) = True"
| "is_LoadFile e = False"

text \<open>The events before the first call of \<^verbatim>\<open>hive.load_file\<close> (all of them, if there is none).\<close>

definition before_load :: "event list \<Rightarrow> event list" where
  "before_load tr = takeWhile (\<lambda>e. \<not> is_LoadFile e) tr"

text \<open>
  The arguments that \<open>execute\<close> passes to \<^verbatim>\<open>hive.load_file\<close> when the cursor's description
  is \<open>description\<close>.
\<close>

definition load_args :: "env \<Rightarrow> operator \<Rightarrow> column list \<Rightarrow> load_file_args" where
  "load_args env self description =
     \<lparr>arg_filepath = tmp_name env,
      arg_table = self_hive_table self,
      arg_field_dict = field_dict_loop (mysql_types env) description [],
      arg_create = self_create self,
      arg_partition = self_partition self,
      arg_delimiter = self_delimiter self,
      arg_recreate = self_recreate self,
      arg_tblproperties = self_tblproperties self\<rparr>"

subsection \<open>A sample run\<close>

text \<open>
  The scenario of the specification: columns \<open>id\<close> (long-int) and \<open>name\<close> (type code 9999),
  two rows, the comma as delimiter and the double quote as quote character.
\<close>

definition example_env :: env where
  "example_env =
     \<lparr>raises = (\<lambda>c. False), mysql_types = MySQLdb_FIELD_TYPE,
      query_description = Some [(''id'', 3), (''name'', 9999)],
      query_rows = [[IntVal 1, StrVal ''a,b''], [IntVal 2, StrVal (''c'' @ [CHR 0x22] @ ''d'')]],
      tmp_name = ''/tmp/tmpf''\<rparr>"

definition example_self :: operator where
  "example_self =
     init ''SELECT id, name FROM t'' ''staging.t'' True False PyNone '','' None [CHR 0x22] None
       ''mysql_default'' ''hive_cli_default'' None"

text \<open>The same run with two columns of one name, and with a failure while the second row is written.\<close>

definition duplicate_env :: env where
  "duplicate_env = example_env\<lparr>query_description := Some [(''x'', 3), (''x'', 253)]\<rparr>"

definition failing_env :: env where
  "failing_env = example_env\<lparr>raises := (\<lambda>c. c = Writerow 1)\<rparr>"

text \<open>The operator without \<open>create\<close> (and without \<open>recreate\<close>), run against an empty destination.\<close>

definition missing_table_self :: operator where
  "missing_table_self = example_self\<lparr>self_create := False\<rparr>"

section \<open>Properties of dictionaries\<close>

lemma map_of_dict_setitem: "map_of (dict_setitem d k v) = (map_of d)(k \<mapsto> v)"
  by (induction d) (auto simp: fun_eq_iff)

lemma keys_dict_setitem: "fst ` set (dict_setitem d k v) = insert k (fst ` set d)"
  by (induction d) auto

lemma distinct_dict_setitem:
  "distinct (map fst d) \<Longrightarrow> distinct (map fst (dict_setitem d k v))"
  by (induction d) (auto simp: keys_dict_setitem)

lemma dict_setitem_new: "k \<notin> fst ` set d \<Longrightarrow> dict_setitem d k v = d @ [(k, v)]"
  by (induction d) auto

lemma dict_display_distinct:
  "distinct (map fst (d @ kvs)) \<Longrightarrow> dict_display d kvs = d @ kvs"
proof (induction kvs arbitrary: d)
  case Nil
  then show ?case by simp
next
  case (Cons kv kvs)
  from Cons.prems have new: "fst kv \<notin> fst ` set d"
    by auto
  from Cons.prems have "distinct (map fst ((d @ [kv]) @ kvs))"
    by simp
  then have "dict_display (d @ [kv]) kvs = (d @ [kv]) @ kvs"
    by (rule Cons.IH)
  with new show ?case
    by (simp add: dict_setitem_new)
qed

lemma field_dict_loop_map_of:
  "map_of (field_dict_loop types description d) =
     map_of d ++ map_of (rev (map (\<lambda>field. (fst field, type_map types (snd field))) description))"
proof (induction description arbitrary: d)
  case Nil
  then show ?case by simp
next
  case (Cons field description)
  show ?case
    by (simp add: Cons.IH map_of_dict_setitem fun_eq_iff map_add_def split: option.splits)
qed

lemma field_dict_loop_keys:
  "fst ` set (field_dict_loop types description d) = fst ` set d \<union> fst ` set description"
  by (induction description arbitrary: d) (auto simp: keys_dict_setitem)

lemma field_dict_loop_distinct:
  "distinct (map fst d) \<Longrightarrow> distinct (map fst (field_dict_loop types description d))"
  by (induction description arbitrary: d) (auto simp: distinct_dict_setitem)

lemma field_dict_loop_append:
  "distinct (map fst d @ map fst description) \<Longrightarrow>
   field_dict_loop types description d =
     d @ map (\<lambda>field. (fst field, type_map types (snd field))) description"
proof (induction description arbitrary: d)
  case Nil
  then show ?case by simp
next
  case (Cons field description)
  from Cons.prems have new: "fst field \<notin> fst ` set d"
    by auto
  from Cons.prems
  have "distinct (map fst (d @ [(fst field, type_map types (snd field))]) @ map fst description)"
    by auto
  then have "field_dict_loop types description (d @ [(fst field, type_map types (snd field))]) =
      (d @ [(fst field, type_map types (snd field))]) @
      map (\<lambda>field. (fst field, type_map types (snd field))) description"
    by (rule Cons.IH)
  with new show ?case
    by (simp add: dict_setitem_new)
qed

lemma map_of_rev_last:
  "n \<in> fst ` set xs \<Longrightarrow>
   map_of (rev xs) n = Some (snd (last (filter (\<lambda>e. fst e = n) xs)))"
proof (induction xs rule: rev_induct)
  case Nil
  then show ?case by simp
next
  case (snoc x xs)
  then show ?case
    by (cases "fst x = n") auto
qed

lemma one_entry:
  "distinct (map fst xs) \<Longrightarrow> n \<in> fst ` set xs \<Longrightarrow> length (filter (\<lambda>e. fst e = n) xs) = 1"
proof (induction xs)
  case Nil
  then show ?case by simp
next
  case (Cons x xs)
  show ?case
  proof (cases "fst x = n")
    case True
    with Cons.prems have "filter (\<lambda>e. fst e = n) xs = []"
      by (force simp: filter_empty_conv image_iff)
    with True show ?thesis by simp
  next
    case False
    with Cons show ?thesis by auto
  qed
qed

lemma at_most_one_entry:
  "distinct (map fst xs) \<Longrightarrow> length (filter (\<lambda>e. fst e = n) xs) \<le> 1"
proof (cases "n \<in> fst ` set xs")
  case True
  assume "distinct (map fst xs)"
  from one_entry [OF this True] show ?thesis by simp
next
  case False
  then have "filter (\<lambda>e. fst e = n) xs = []"
    by (auto simp: filter_empty_conv)
  then show ?thesis by simp
qed

section \<open>The runs of \<open>execute\<close>\<close>

lemma run_block_last:
  "(case p of (None, s') \<Rightarrow> run_block [] s' | (Some e, s') \<Rightarrow> (Some e, s')) = p"
  by (simp split: prod.splits option.splits)

lemma writerows_result:
  "cursor_rows s = rs \<Longrightarrow>
   \<exists>k\<le>length rs. writerows env i rs s =
     (if k = length rs then None else Some (Raised (Writerow (i + k))),
      s\<lparr>cursor_rows := drop (if k = length rs then k else Suc k) rs,
        file_buffer := file_buffer s @ take k rs,
        trace := trace s @ map WriteRow (take k rs)\<rparr>)"
proof (induction rs arbitrary: i s)
  case Nil
  then show ?case by simp
next
  case (Cons r rs)
  show ?case
  proof (cases "raises env (Writerow i)")
    case True
    then have "writerows env i (r # rs) s = (Some (Raised (Writerow (i + 0))), s\<lparr>cursor_rows := rs\<rparr>)"
      by simp
    then show ?thesis
      by (intro exI [of _ 0]) simp
  next
    case False
    let ?s = "emit (WriteRow r) (s\<lparr>cursor_rows := rs, file_buffer := file_buffer s @ [r]\<rparr>)"
    have "cursor_rows ?s = rs"
      by (simp add: emit_def)
    from Cons.IH [OF this, of "Suc i"] obtain k where k: "k \<le> length rs"
      and eq: "writerows env (Suc i) rs ?s =
        (if k = length rs then None else Some (Raised (Writerow (Suc i + k))),
         ?s\<lparr>cursor_rows := drop (if k = length rs then k else Suc k) rs,
           file_buffer := file_buffer ?s @ take k rs,
           trace := trace ?s @ map WriteRow (take k rs)\<rparr>)"
      by blast
    from False eq k show ?thesis
      by (intro exI [of _ "Suc k"]) (simp add: emit_def)
  qed
qed

lemma staging_and_load_cases:
  "(\<exists>description. cursor_description s = Some description \<and>
      staging_and_load env self s =
        load_file (load_args env self description)
          (s\<lparr>field_dict := field_dict_loop (mysql_types env) description [],
             cursor_rows := [],
             file_disk := file_disk s @ file_buffer s @ cursor_rows s, file_buffer := [],
             cursor_open := False, conn_open := False,
             trace := trace s @ map WriteRow (cursor_rows s) @
               [Flush, CloseCursor, CloseConn, Log ''Loading file into Hive'',
                LoadFile (load_args env self description)]\<rparr>))
   \<or> (\<exists>e s'. staging_and_load env self s = (Some e, s') \<and> warehouse s' = warehouse s \<and>
        (\<exists>es. trace s' = trace s @ es \<and> (\<forall>a. LoadFile a \<notin> set es)))"
proof (cases "cursor_description s")
  case None
  then show ?thesis
    by (simp add: staging_and_load_def csv_writer_def ext_call_def build_field_dict_def)
next
  case (Some d)
  let ?s = "s\<lparr>field_dict := field_dict_loop (mysql_types env) d []\<rparr>"
  have "cursor_rows ?s = cursor_rows s"
    by simp
  from writerows_result [OF this, of env 0] obtain k where k: "k \<le> length (cursor_rows s)"
    and w: "writerows env 0 (cursor_rows s) ?s =
      (if k = length (cursor_rows s) then None else Some (Raised (Writerow (0 + k))),
       ?s\<lparr>cursor_rows := drop (if k = length (cursor_rows s) then k else Suc k) (cursor_rows s),
         file_buffer := file_buffer ?s @ take k (cursor_rows s),
         trace := trace ?s @ map WriteRow (take k (cursor_rows s))\<rparr>)"
    by blast
  show ?thesis
  proof (cases "k = length (cursor_rows s)")
    case True
    with Some w show ?thesis
      by (simp add: staging_and_load_def csv_writer_def ext_call_def build_field_dict_def
          csv_writerows_def file_flush_def cursor_close_def conn_close_def log_info_def
          hive_load_file_def emit_def load_args_def Let_def run_block_last image_iff)
  next
    case False
    with Some w show ?thesis
      by (auto simp add: staging_and_load_def csv_writer_def ext_call_def build_field_dict_def
          csv_writerows_def dest: in_set_takeD)
  qed
qed

lemma execute_cases:
  "(\<exists>description. query_description env = Some description \<and>
      execute env self (initial_state wh) =
        (fst (load_into (load_args env self description) (query_rows env) wh),
         \<lparr>conn_open = False, cursor_open = False,
          cursor_description = Some description, cursor_rows = [],
          file_exists = False, file_open = False, file_buffer = [], file_disk = [],
          field_dict = field_dict_loop (mysql_types env) description [],
          warehouse = snd (load_into (load_args env self description) (query_rows env) wh),
          trace =
            [Log ''Dumping MySQL query results to local file'', Connect, OpenCursor,
             RunQuery (self_sql self), CreateTempFile (tmp_name env)] @
            map WriteRow (query_rows env) @
            [Flush, CloseCursor, CloseConn, Log ''Loading file into Hive'',
             LoadFile (load_args env self description), CloseTempFile]\<rparr>))
   \<or> (\<exists>e s'. execute env self (initial_state wh) = (Some e, s') \<and> warehouse s' = wh \<and>
        (\<forall>a. LoadFile a \<notin> set (trace s')) \<and> \<not> file_exists s' \<and> \<not> file_open s' \<and>
        (\<forall>n. CreateTempFile n \<in> set (trace s') \<longrightarrow> last (trace s') = CloseTempFile))"
proof (cases "raises env HiveCliHook_init \<or> raises env MySqlHook_init \<or> raises env Get_conn
    \<or> raises env Conn_cursor \<or> raises env Cursor_execute \<or> raises env NamedTemporaryFile_open")
  case True
  then show ?thesis
    by (auto simp add: execute_def ext_call_def log_info_def get_conn_def conn_cursor_def
        cursor_execute_def with_NamedTemporaryFile_def emit_def initial_state_def)
next
  case False
  let ?s = "emit (CreateTempFile (tmp_name env))
     (emit (RunQuery (self_sql self)) (emit OpenCursor (emit Connect (emit (Log ''Dumping MySQL query results to local file'') (initial_state wh)\<lparr>conn_open := True\<rparr>)\<lparr>cursor_open := True\<rparr>)
       \<lparr>cursor_description := query_description env, cursor_rows := query_rows env\<rparr>)
      \<lparr>file_exists := True, file_open := True, file_buffer := [], file_disk := []\<rparr>)"
  from False have ex: "execute env self (initial_state wh) =
     (case staging_and_load env self ?s of
        (r, s') \<Rightarrow> (r, emit CloseTempFile (s'\<lparr>file_exists := False, file_open := False,
                      file_buffer := [], file_disk := []\<rparr>)))"
    by (simp add: execute_def ext_call_def log_info_def get_conn_def conn_cursor_def
        cursor_execute_def with_NamedTemporaryFile_def run_block_last)
  from staging_and_load_cases [of ?s env self] show ?thesis
  proof (elim disjE exE conjE)
    fix description
    assume "cursor_description ?s = Some description"
      and "staging_and_load env self ?s =
        load_file (load_args env self description)
          (?s\<lparr>field_dict := field_dict_loop (mysql_types env) description [],
             cursor_rows := [],
             file_disk := file_disk ?s @ file_buffer ?s @ cursor_rows ?s, file_buffer := [],
             cursor_open := False, conn_open := False,
             trace := trace ?s @ map WriteRow (cursor_rows ?s) @
               [Flush, CloseCursor, CloseConn, Log ''Loading file into Hive'',
                LoadFile (load_args env self description)]\<rparr>)"
    with ex show ?thesis
      by (intro disjI1 exI [of _ description])
         (simp add: load_file_def emit_def initial_state_def split: prod.splits)
  next
    fix e s' es
    assume "staging_and_load env self ?s = (Some e, s')" "warehouse s' = warehouse ?s"
      "trace s' = trace ?s @ es" "\<forall>a. LoadFile a \<notin> set es"
    with ex show ?thesis
      by (intro disjI2) (simp add: emit_def initial_state_def)
  qed
qed

lemma execute_load:
  assumes "LoadFile a \<in> set (trace (snd (execute env self (initial_state wh))))"
  obtains description where "query_description env = Some description"
    and "a = load_args env self description"
    and "execute env self (initial_state wh) =
        (fst (load_into (load_args env self description) (query_rows env) wh),
         \<lparr>conn_open = False, cursor_open = False,
          cursor_description = Some description, cursor_rows = [],
          file_exists = False, file_open = False, file_buffer = [], file_disk = [],
          field_dict = field_dict_loop (mysql_types env) description [],
          warehouse = snd (load_into (load_args env self description) (query_rows env) wh),
          trace =
            [Log ''Dumping MySQL query results to local file'', Connect, OpenCursor,
             RunQuery (self_sql self), CreateTempFile (tmp_name env)] @
            map WriteRow (query_rows env) @
            [Flush, CloseCursor, CloseConn, Log ''Loading file into Hive'',
             LoadFile (load_args env self description), CloseTempFile]\<rparr>)"
  using execute_cases [of env self wh] assms by (elim disjE exE conjE) auto

lemma before_load_writes:
  "before_load (map WriteRow rows @ Flush # CloseCursor # CloseConn # Log msg # LoadFile a # es) =
     map WriteRow rows @ [Flush, CloseCursor, CloseConn, Log msg]"
  by (auto simp: before_load_def takeWhile_append)

lemma execute_load_trace:
  assumes "LoadFile a \<in> set (trace (snd (execute env self (initial_state wh))))"
  shows "trace (snd (execute env self (initial_state wh))) =
           [Log ''Dumping MySQL query results to local file'', Connect, OpenCursor,
            RunQuery (self_sql self), CreateTempFile (tmp_name env)] @
           map WriteRow (query_rows env) @
           [Flush, CloseCursor, CloseConn, Log ''Loading file into Hive'',
            LoadFile a, CloseTempFile]"
    and "before_load (trace (snd (execute env self (initial_state wh)))) =
           [Log ''Dumping MySQL query results to local file'', Connect, OpenCursor,
            RunQuery (self_sql self), CreateTempFile (tmp_name env)] @
           map WriteRow (query_rows env) @
           [Flush, CloseCursor, CloseConn, Log ''Loading file into Hive'']"
proof -
  from assms show tr: "trace (snd (execute env self (initial_state wh))) =
           [Log ''Dumping MySQL query results to local file'', Connect, OpenCursor,
            RunQuery (self_sql self), CreateTempFile (tmp_name env)] @
           map WriteRow (query_rows env) @
           [Flush, CloseCursor, CloseConn, Log ''Loading file into Hive'',
            LoadFile a, CloseTempFile]"
    by (rule execute_load) simp
  show "before_load (trace (snd (execute env self (initial_state wh)))) =
           [Log ''Dumping MySQL query results to local file'', Connect, OpenCursor,
            RunQuery (self_sql self), CreateTempFile (tmp_name env)] @
           map WriteRow (query_rows env) @
           [Flush, CloseCursor, CloseConn, Log ''Loading file into Hive'']"
    unfolding tr using before_load_writes [of "query_rows env"]
    by (simp add: before_load_def)
qed

lemma load_into_missing:
  assumes "\<not> arg_create a" and "\<not> arg_recreate a" and "map_of wh (arg_table a) = None"
  shows "load_into a staged_rows wh = (Some TableNotFoundError, wh)"
  using assms by (simp add: load_into_def)

section \<open>Properties of the type mapping\<close>

lemma type_map_distinct:
  assumes "distinct (map fst (type_map_items types))"
  shows "type_map types c = dict_get (type_map_items types) c ''STRING''"
  using assms dict_display_distinct [of "[]" "type_map_items types"]
  by (simp add: type_map_def)

text \<open>
  C1. When the twelve source type codes are pairwise different (as MySQLdb's are),
  \<open>type_map\<close> sends bit to INT, decimal and fixed-decimal to DOUBLE, double and float to
  DOUBLE, medium-int to INT, long-int to BIGINT, long-long-int to DECIMAL(38,0), short-int
  to INT, tiny-int to SMALLINT, year to INT and timestamp to TIMESTAMP, and every code that
  is not a key of the table to STRING.
\<close>

theorem type_map_table:
  assumes "distinct (map fst (type_map_items types))"
  shows "type_map types (BIT types) = ''INT''
       \<and> type_map types (DECIMAL types) = ''DOUBLE''
       \<and> type_map types (NEWDECIMAL types) = ''DOUBLE''
       \<and> type_map types (DOUBLE types) = ''DOUBLE''
       \<and> type_map types (FLOAT types) = ''DOUBLE''
       \<and> type_map types (INT24 types) = ''INT''
       \<and> type_map types (LONG types) = ''BIGINT''
       \<and> type_map types (LONGLONG types) = ''DECIMAL(38,0)''
       \<and> type_map types (SHORT types) = ''INT''
       \<and> type_map types (TINY types) = ''SMALLINT''
       \<and> type_map types (YEAR types) = ''INT''
       \<and> type_map types (TIMESTAMP types) = ''TIMESTAMP''
       \<and> (\<forall>c. c \<notin> fst ` set (type_map_items types) \<longrightarrow> type_map types c = ''STRING'')"
proof -
  have unmapped: "type_map types c = ''STRING''" if "c \<notin> fst ` set (type_map_items types)" for c
  proof -
    from that have "map_of (type_map_items types) c = None"
      by (simp add: map_of_eq_None_iff)
    then show ?thesis
      by (simp add: type_map_distinct [OF assms] dict_get_def)
  qed
  have mapped: "type_map types k = v" if "(k, v) \<in> set (type_map_items types)" for k v
  proof -
    from assms that have "map_of (type_map_items types) k = Some v"
      by (rule map_of_is_SomeI)
    then show ?thesis
      by (simp add: type_map_distinct [OF assms] dict_get_def)
  qed
  show ?thesis
    by (intro conjI allI impI unmapped mapped) (simp_all add: type_map_items_def)
qed

theorem type_map_table_witness:
  "distinct (map fst (type_map_items MySQLdb_FIELD_TYPE))
   \<and> (253::int) \<notin> fst ` set (type_map_items MySQLdb_FIELD_TYPE)
   \<and> (9999::int) \<notin> fst ` set (type_map_items MySQLdb_FIELD_TYPE)
   \<and> type_map MySQLdb_FIELD_TYPE 16 = ''INT''
   \<and> type_map MySQLdb_FIELD_TYPE 0 = ''DOUBLE''
   \<and> type_map MySQLdb_FIELD_TYPE 246 = ''DOUBLE''
   \<and> type_map MySQLdb_FIELD_TYPE 5 = ''DOUBLE''
   \<and> type_map MySQLdb_FIELD_TYPE 4 = ''DOUBLE''
   \<and> type_map MySQLdb_FIELD_TYPE 9 = ''INT''
   \<and> type_map MySQLdb_FIELD_TYPE 3 = ''BIGINT''
   \<and> type_map MySQLdb_FIELD_TYPE 8 = ''DECIMAL(38,0)''
   \<and> type_map MySQLdb_FIELD_TYPE 2 = ''INT''
   \<and> type_map MySQLdb_FIELD_TYPE 1 = ''SMALLINT''
   \<and> type_map MySQLdb_FIELD_TYPE 13 = ''INT''
   \<and> type_map MySQLdb_FIELD_TYPE 7 = ''TIMESTAMP''
   \<and> type_map MySQLdb_FIELD_TYPE 253 = ''STRING''
   \<and> type_map MySQLdb_FIELD_TYPE 9999 = ''STRING''"
proof -
  have d: "distinct (map fst (type_map_items MySQLdb_FIELD_TYPE))"
    by (simp add: type_map_items_def MySQLdb_FIELD_TYPE_def)
  have u1: "(253::int) \<notin> fst ` set (type_map_items MySQLdb_FIELD_TYPE)"
    by (simp add: type_map_items_def MySQLdb_FIELD_TYPE_def)
  have u2: "(9999::int) \<notin> fst ` set (type_map_items MySQLdb_FIELD_TYPE)"
    by (simp add: type_map_items_def MySQLdb_FIELD_TYPE_def)
  from type_map_table [OF d] d u1 u2 show ?thesis
    by (simp add: MySQLdb_FIELD_TYPE_def)
qed

text \<open>
  C8. \<open>type_map\<close> is a function of the constants and the type code alone (it reads and
  writes no state), and for every integer type code, whatever the constants are, its
  result is one of the seven destination type names.
\<close>

theorem type_map_total:
  "type_map types c \<in>
     {''INT'', ''DOUBLE'', ''BIGINT'', ''DECIMAL(38,0)'', ''SMALLINT'', ''TIMESTAMP'', ''STRING''}"
proof -
  have vals: "snd ` set (dict_setitem d k v) \<subseteq> insert v (snd ` set d)"
    for d :: "(int \<times> string) list" and k v
    by (induction d) auto
  have disp: "snd ` set (dict_display d kvs) \<subseteq> snd ` set d \<union> snd ` set kvs"
    for d kvs :: "(int \<times> string) list"
  proof (induction kvs arbitrary: d)
    case Nil
    then show ?case by simp
  next
    case (Cons kv kvs)
    have "snd ` set (dict_display (dict_setitem d (fst kv) (snd kv)) kvs)
            \<subseteq> snd ` set (dict_setitem d (fst kv) (snd kv)) \<union> snd ` set kvs"
      by (rule Cons.IH)
    also have "\<dots> \<subseteq> insert (snd kv) (snd ` set d) \<union> snd ` set kvs"
      using vals [of d "fst kv" "snd kv"] by blast
    finally show ?case
      by simp
  qed
  have get: "dict_get d k dflt \<in> insert dflt (snd ` set d)"
    for d :: "(int \<times> string) list" and k dflt
    by (auto simp: dict_get_def split: option.splits dest: map_of_SomeD intro: rev_image_eqI)
  have "type_map types c \<in> insert ''STRING'' (snd ` set (dict_display [] (type_map_items types)))"
    unfolding type_map_def by (rule get)
  with disp [of "[]" "type_map_items types"]
  have "type_map types c \<in> insert ''STRING'' (snd ` set (type_map_items types))"
    by auto
  then show ?thesis
    unfolding type_map_items_def by auto
qed

section \<open>Properties of the field dictionary\<close>

text \<open>
  C9. If two or more columns of the cursor's description have the name \<open>n\<close>, the field
  dictionary has exactly one entry for \<open>n\<close>, its destination type is that of the last
  column named \<open>n\<close>, and the dictionary has fewer entries than the description has
  columns (the staged file has one physical column per column of the description).
\<close>

theorem field_dict_duplicate_names:
  assumes "2 \<le> length (filter (\<lambda>field. fst field = n) description)"
  shows "length (filter (\<lambda>e. fst e = n) (field_dict_loop types description [])) = 1
       \<and> map_of (field_dict_loop types description []) n =
           Some (type_map types (snd (last (filter (\<lambda>field. fst field = n) description))))
       \<and> length (field_dict_loop types description []) < length description"
proof -
  let ?fd = "field_dict_loop types description []"
  let ?g = "\<lambda>field. (fst field, type_map types (snd field))"
  from assms have "filter (\<lambda>field. fst field = n) description \<noteq> []"
    by auto
  then have n: "n \<in> fst ` set description"
    by (auto simp: filter_empty_conv)
  have d: "distinct (map fst ?fd)"
    by (rule field_dict_loop_distinct) simp
  have keys: "fst ` set ?fd = fst ` set description"
    by (simp add: field_dict_loop_keys)
  from d n keys have one: "length (filter (\<lambda>e. fst e = n) ?fd) = 1"
    by (intro one_entry) simp_all
  have f: "filter (\<lambda>e. fst e = n) (map ?g description) =
      map ?g (filter (\<lambda>field. fst field = n) description)"
    by (simp add: filter_map comp_def)
  from n have "n \<in> fst ` set (map ?g description)"
    by (force simp: image_iff)
  then have "map_of (rev (map ?g description)) n =
      Some (snd (last (filter (\<lambda>e. fst e = n) (map ?g description))))"
    by (rule map_of_rev_last)
  also have "\<dots> = Some (type_map types (snd (last (filter (\<lambda>field. fst field = n) description))))"
    using \<open>filter (\<lambda>field. fst field = n) description \<noteq> []\<close>
    by (simp add: f last_map)
  finally have val: "map_of ?fd n =
      Some (type_map types (snd (last (filter (\<lambda>field. fst field = n) description))))"
    by (simp add: field_dict_loop_map_of)
  from assms at_most_one_entry [of description n] have nd: "\<not> distinct (map fst description)"
    by auto
  from d have "length ?fd = card (fst ` set ?fd)"
    by (metis distinct_card length_map set_map)
  also have "\<dots> = card (set (map fst description))"
    by (simp add: keys)
  also have "\<dots> < length (map fst description)"
    using nd card_distinct card_length le_neq_implies_less by metis
  finally have "length ?fd < length description"
    by simp
  with one val show ?thesis
    by simp
qed

theorem field_dict_duplicate_names_witness:
  "2 \<le> length (filter (\<lambda>field. fst field = ''x'') [(''x'', 3), (''y'', 1), (''x'', 253::int)])
   \<and> field_dict_loop MySQLdb_FIELD_TYPE [(''x'', 3), (''y'', 1), (''x'', 253)] [] =
       [(''x'', ''STRING''), (''y'', ''SMALLINT'')]
   \<and> length (filter (\<lambda>e. fst e = ''x'')
        (field_dict_loop MySQLdb_FIELD_TYPE [(''x'', 3), (''y'', 1), (''x'', 253)] [])) = 1
   \<and> map_of (field_dict_loop MySQLdb_FIELD_TYPE [(''x'', 3), (''y'', 1), (''x'', 253)] []) ''x'' =
       Some (type_map MySQLdb_FIELD_TYPE 253)
   \<and> length (field_dict_loop MySQLdb_FIELD_TYPE [(''x'', 3), (''y'', 1), (''x'', 253)] []) < 3"
proof -
  have h: "2 \<le> length (filter (\<lambda>field. fst field = ''x'') [(''x'', 3), (''y'', 1), (''x'', 253::int)])"
    by simp
  have e: "field_dict_loop MySQLdb_FIELD_TYPE [(''x'', 3), (''y'', 1), (''x'', 253)] [] =
       [(''x'', ''STRING''), (''y'', ''SMALLINT'')]"
    by code_simp
  from field_dict_duplicate_names [OF h, of MySQLdb_FIELD_TYPE] h e show ?thesis
    by simp
qed

text \<open>
  C2 (as amended). When the column names of the cursor's description are pairwise
  different, the field dictionary built by \<open>execute\<close> has one entry per column, in the
  order of the description, each mapping the column's name to the destination type of
  its type code; this is the dictionary handed to the loader. (With a repeated name the
  dictionary is shorter than the description: see the counterexample and C9.)
\<close>

theorem field_dict_column_order:
  assumes "distinct (map fst description)"
  shows "field_dict_loop (mysql_types env) description [] =
           map (\<lambda>field. (fst field, type_map (mysql_types env) (snd field))) description
       \<and> (LoadFile a \<in> set (trace (snd (execute env self (initial_state wh)))) \<and>
          query_description env = Some description \<longrightarrow>
            map fst (arg_field_dict a) = map fst description \<and>
            arg_field_dict a =
              map (\<lambda>field. (fst field, type_map (mysql_types env) (snd field))) description)"
proof -
  from assms have eq: "field_dict_loop (mysql_types env) description [] =
      map (\<lambda>field. (fst field, type_map (mysql_types env) (snd field))) description"
    using field_dict_loop_append [of "[]" description "mysql_types env"] by simp
  have "arg_field_dict a = field_dict_loop (mysql_types env) description []"
    if "LoadFile a \<in> set (trace (snd (execute env self (initial_state wh))))"
      and "query_description env = Some description"
    using that by (auto elim!: execute_load simp: load_args_def)
  with eq show ?thesis
    by (simp add: comp_def)
qed

theorem field_dict_column_order_witness:
  "distinct (map fst [(''id'', 3::int), (''name'', 9999)])
   \<and> LoadFile (load_args example_env example_self [(''id'', 3), (''name'', 9999)])
       \<in> set (trace (snd (execute example_env example_self (initial_state []))))
   \<and> query_description example_env = Some [(''id'', 3), (''name'', 9999)]
   \<and> field_dict_loop (mysql_types example_env) [(''id'', 3), (''name'', 9999)] [] =
       [(''id'', ''BIGINT''), (''name'', ''STRING'')]
   \<and> arg_field_dict (load_args example_env example_self [(''id'', 3), (''name'', 9999)]) =
       [(''id'', ''BIGINT''), (''name'', ''STRING'')]"
proof -
  have d: "distinct (map fst [(''id'', 3::int), (''name'', 9999)])"
    by simp
  have l: "LoadFile (load_args example_env example_self [(''id'', 3), (''name'', 9999)])
       \<in> set (trace (snd (execute example_env example_self (initial_state []))))"
    by code_simp
  have q: "query_description example_env = Some [(''id'', 3), (''name'', 9999)]"
    by (simp add: example_env_def)
  have t: "map (\<lambda>field. (fst field, type_map (mysql_types example_env) (snd field)))
      [(''id'', 3), (''name'', 9999)] = [(''id'', ''BIGINT''), (''name'', ''STRING'')]"
    by code_simp
  from field_dict_column_order [OF d, of example_env
      "load_args example_env example_self [(''id'', 3), (''name'', 9999)]" example_self "[]"]
    d l q t
  show ?thesis
    by simp
qed

text \<open>
  Without that condition the claim fails: for the description \<open>[(x, LONG), (x, VAR_STRING)]\<close>
  the dictionary has the single key \<open>x\<close>, mapped to STRING, while the first column \<open>x\<close> is
  a long-int (BIGINT).
\<close>

theorem field_dict_column_order_counterexample:
  "map fst (field_dict (snd (execute duplicate_env example_self (initial_state []))))
     \<noteq> map fst [(''x'', 3::int), (''x'', 253)]
   \<and> query_description duplicate_env = Some [(''x'', 3), (''x'', 253)]
   \<and> type_map (mysql_types duplicate_env) 3 = ''BIGINT''
   \<and> map_of (field_dict (snd (execute duplicate_env example_self (initial_state [])))) ''x''
       = Some ''STRING''"
  by code_simp


section \<open>The order of events in a run\<close>

text \<open>
  C4 (as amended). In every run that reaches the load step, the staged file has been
  flushed before its path is handed to the loader, and its handle has not been released
  then: the call of the loader is followed by exactly one more event, the closing and
  removal of the temporary file. What the loader reads from the disk is every row of the
  result.
\<close>

theorem flushed_before_load:
  assumes "LoadFile a \<in> set (trace (snd (execute env self (initial_state wh))))"
  shows "Flush \<in> set (before_load (trace (snd (execute env self (initial_state wh)))))
       \<and> CloseTempFile \<notin> set (before_load (trace (snd (execute env self (initial_state wh)))))
       \<and> trace (snd (execute env self (initial_state wh))) =
           before_load (trace (snd (execute env self (initial_state wh)))) @
           [LoadFile a, CloseTempFile]
       \<and> arg_filepath a = tmp_name env
       \<and> execute env self (initial_state wh) =
           (fst (load_into a (query_rows env) wh),
            (snd (execute env self (initial_state wh)))
              \<lparr>warehouse := snd (load_into a (query_rows env) wh)\<rparr>)"
proof -
  note tr = execute_load_trace(1) [OF assms] and bl = execute_load_trace(2) [OF assms]
  have "Flush \<in> set (before_load (trace (snd (execute env self (initial_state wh)))))"
    unfolding bl by simp
  moreover
  have "CloseTempFile \<notin> set (before_load (trace (snd (execute env self (initial_state wh)))))"
    unfolding bl by auto
  moreover
  have "trace (snd (execute env self (initial_state wh))) =
      before_load (trace (snd (execute env self (initial_state wh)))) @
      [LoadFile a, CloseTempFile]"
    unfolding bl by (simp add: tr)
  moreover
  from assms have "arg_filepath a = tmp_name env"
    by (rule execute_load) (simp add: load_args_def)
  moreover
  from assms have "execute env self (initial_state wh) =
      (fst (load_into a (query_rows env) wh),
       (snd (execute env self (initial_state wh)))
         \<lparr>warehouse := snd (load_into a (query_rows env) wh)\<rparr>)"
    by (rule execute_load) simp
  ultimately show ?thesis
    by (intro conjI)
qed

theorem flushed_before_load_witness:
  "LoadFile (load_args example_env example_self [(''id'', 3), (''name'', 9999)])
       \<in> set (trace (snd (execute example_env example_self (initial_state []))))
   \<and> Flush \<in> set (before_load (trace (snd (execute example_env example_self (initial_state [])))))
   \<and> CloseTempFile \<notin>
       set (before_load (trace (snd (execute example_env example_self (initial_state [])))))
   \<and> trace (snd (execute example_env example_self (initial_state []))) =
       before_load (trace (snd (execute example_env example_self (initial_state [])))) @
       [LoadFile (load_args example_env example_self [(''id'', 3), (''name'', 9999)]),
        CloseTempFile]"
proof -
  have l: "LoadFile (load_args example_env example_self [(''id'', 3), (''name'', 9999)])
       \<in> set (trace (snd (execute example_env example_self (initial_state []))))"
    by code_simp
  from flushed_before_load [OF l] l show ?thesis
    by simp
qed

text \<open>
  The handle is not released before the load: in the sample run the loader is called, no
  closing of the file precedes that call, and the closing is the last event.
\<close>

theorem handle_released_before_load_counterexample:
  "LoadFile (load_args example_env example_self [(''id'', 3), (''name'', 9999)])
       \<in> set (trace (snd (execute example_env example_self (initial_state []))))
   \<and> CloseTempFile \<notin>
       set (before_load (trace (snd (execute example_env example_self (initial_state [])))))
   \<and> last (trace (snd (execute example_env example_self (initial_state [])))) = CloseTempFile"
  by code_simp

text \<open>
  C5 (as amended). In every run that reaches the load step, the cursor and then the
  connection have been closed after every row of the result was written and the file
  flushed, and before the loader is called; they are closed at the end of such a run,
  whether the load succeeds or fails.
\<close>

theorem source_closed_before_load:
  assumes "LoadFile a \<in> set (trace (snd (execute env self (initial_state wh))))"
  shows "before_load (trace (snd (execute env self (initial_state wh)))) =
           [Log ''Dumping MySQL query results to local file'', Connect, OpenCursor,
            RunQuery (self_sql self), CreateTempFile (tmp_name env)] @
           map WriteRow (query_rows env) @
           [Flush, CloseCursor, CloseConn, Log ''Loading file into Hive'']
       \<and> \<not> cursor_open (snd (execute env self (initial_state wh)))
       \<and> \<not> conn_open (snd (execute env self (initial_state wh)))
       \<and> cursor_rows (snd (execute env self (initial_state wh))) = []"
proof -
  from assms have "\<not> cursor_open (snd (execute env self (initial_state wh)))
       \<and> \<not> conn_open (snd (execute env self (initial_state wh)))
       \<and> cursor_rows (snd (execute env self (initial_state wh))) = []"
    by (rule execute_load) simp
  with execute_load_trace(2) [OF assms] show ?thesis
    by simp
qed

theorem source_closed_before_load_witness:
  "LoadFile (load_args example_env missing_table_self [(''id'', 3), (''name'', 9999)])
       \<in> set (trace (snd (execute example_env missing_table_self (initial_state []))))
   \<and> fst (execute example_env missing_table_self (initial_state [])) = Some TableNotFoundError
   \<and> before_load (trace (snd (execute example_env missing_table_self (initial_state [])))) =
       [Log ''Dumping MySQL query results to local file'', Connect, OpenCursor,
        RunQuery (self_sql missing_table_self), CreateTempFile (tmp_name example_env)] @
       map WriteRow (query_rows example_env) @
       [Flush, CloseCursor, CloseConn, Log ''Loading file into Hive'']
   \<and> \<not> cursor_open (snd (execute example_env missing_table_self (initial_state [])))
   \<and> \<not> conn_open (snd (execute example_env missing_table_self (initial_state [])))"
proof -
  have l: "LoadFile (load_args example_env missing_table_self [(''id'', 3), (''name'', 9999)])
       \<in> set (trace (snd (execute example_env missing_table_self (initial_state []))))"
    by code_simp
  have f: "fst (execute example_env missing_table_self (initial_state [])) = Some TableNotFoundError"
    by code_simp
  from source_closed_before_load [OF l] l f show ?thesis
    by simp
qed

text \<open>
  A run that fails during staging closes neither: when writing the second row raises,
  the run ends with the cursor and the connection open.
\<close>

theorem source_closed_counterexample:
  "fst (execute failing_env example_self (initial_state [])) = Some (Raised (Writerow 1))
   \<and> conn_open (snd (execute failing_env example_self (initial_state [])))
   \<and> cursor_open (snd (execute failing_env example_self (initial_state [])))
   \<and> CloseCursor \<notin> set (trace (snd (execute failing_env example_self (initial_state []))))
   \<and> CloseConn \<notin> set (trace (snd (execute failing_env example_self (initial_state []))))"
  by code_simp

text \<open>
  C6. At the end of every run of \<open>execute\<close>, whatever call raised, the temporary file
  does not exist and its handle is closed; if the file was created, its closing and
  removal is the last event of the run.
\<close>

theorem temporary_file_removed:
  "\<not> file_exists (snd (execute env self (initial_state wh)))
   \<and> \<not> file_open (snd (execute env self (initial_state wh)))
   \<and> (\<forall>n. CreateTempFile n \<in> set (trace (snd (execute env self (initial_state wh)))) \<longrightarrow>
         last (trace (snd (execute env self (initial_state wh)))) = CloseTempFile)"
  using execute_cases [of env self wh] by (elim disjE exE conjE) simp_all

theorem temporary_file_removed_witness:
  "fst (execute failing_env example_self (initial_state [])) = Some (Raised (Writerow 1))
   \<and> CreateTempFile ''/tmp/tmpf'' \<in> set (trace (snd (execute failing_env example_self (initial_state []))))
   \<and> \<not> file_exists (snd (execute failing_env example_self (initial_state [])))
   \<and> \<not> file_open (snd (execute failing_env example_self (initial_state [])))
   \<and> last (trace (snd (execute failing_env example_self (initial_state [])))) = CloseTempFile"
proof -
  have f: "fst (execute failing_env example_self (initial_state [])) = Some (Raised (Writerow 1))"
    by code_simp
  have c: "CreateTempFile ''/tmp/tmpf'' \<in> set (trace (snd (execute failing_env example_self (initial_state []))))"
    by code_simp
  from temporary_file_removed [of failing_env example_self "[]"] f c show ?thesis
    by blast
qed

section \<open>The load step\<close>

text \<open>
  C7. When neither \<open>create\<close> nor \<open>recreate\<close> is set and the destination has no table of
  the given name, the load step fails with \<open>TableNotFoundError\<close> and leaves the destination
  as it was; every such run of \<open>execute\<close> fails and ends with the destination unchanged,
  and a run that reaches the load step fails with \<open>TableNotFoundError\<close>.
\<close>

theorem load_without_table:
  assumes "\<not> self_create self" and "\<not> self_recreate self"
    and "map_of wh (self_hive_table self) = None"
  shows "(\<forall>s. warehouse s = wh \<longrightarrow>
            fst (hive_load_file env self s) = Some TableNotFoundError \<and>
            warehouse (snd (hive_load_file env self s)) = wh)
       \<and> warehouse (snd (execute env self (initial_state wh))) = wh
       \<and> fst (execute env self (initial_state wh)) \<noteq> None
       \<and> (\<forall>a. LoadFile a \<in> set (trace (snd (execute env self (initial_state wh)))) \<longrightarrow>
            fst (execute env self (initial_state wh)) = Some TableNotFoundError)"
proof -
  have missing: "load_into (load_args env self description) staged_rows wh =
      (Some TableNotFoundError, wh)" for description staged_rows
    using assms by (intro load_into_missing) (simp_all add: load_args_def)
  have step: "fst (hive_load_file env self s) = Some TableNotFoundError \<and>
      warehouse (snd (hive_load_file env self s)) = wh" if "warehouse s = wh" for s
    using assms that
    by (simp add: hive_load_file_def load_file_def emit_def Let_def load_into_missing)
  from execute_cases [of env self wh]
  have run: "warehouse (snd (execute env self (initial_state wh))) = wh
       \<and> fst (execute env self (initial_state wh)) \<noteq> None
       \<and> (\<forall>a. LoadFile a \<in> set (trace (snd (execute env self (initial_state wh)))) \<longrightarrow>
            fst (execute env self (initial_state wh)) = Some TableNotFoundError)"
    by (elim disjE exE conjE) (simp_all add: missing)
  from step run show ?thesis
    by blast
qed

theorem load_without_table_witness:
  "\<not> self_create missing_table_self \<and> \<not> self_recreate missing_table_self
   \<and> map_of [] (self_hive_table missing_table_self) = (None :: table_state option)
   \<and> LoadFile (load_args example_env missing_table_self [(''id'', 3), (''name'', 9999)])
       \<in> set (trace (snd (execute example_env missing_table_self (initial_state []))))
   \<and> fst (execute example_env missing_table_self (initial_state [])) = Some TableNotFoundError
   \<and> warehouse (snd (execute example_env missing_table_self (initial_state []))) = []"
proof -
  have c: "\<not> self_create missing_table_self" and r: "\<not> self_recreate missing_table_self"
    by (simp_all add: missing_table_self_def example_self_def init_def)
  have m: "map_of [] (self_hive_table missing_table_self) = (None :: table_state option)"
    by simp
  have l: "LoadFile (load_args example_env missing_table_self [(''id'', 3), (''name'', 9999)])
       \<in> set (trace (snd (execute example_env missing_table_self (initial_state []))))"
    by code_simp
  note t = load_without_table [OF c r m, of example_env]
  note w = t [THEN conjunct2, THEN conjunct1]
  note f = t [THEN conjunct2, THEN conjunct2, THEN conjunct2, THEN spec, THEN mp, OF l]
  from c r m l f w show ?thesis
    by (intro conjI)
qed

section \<open>The constructor\<close>

text \<open>
  C10. The partition stored by the constructor is never \<open>None\<close>: for \<open>None\<close> and every
  other falsy argument it is the empty dictionary, and for an argument that is \<open>None\<close> or a
  dictionary it is a dictionary. The partition handed to the loader is the stored one.
\<close>

theorem partition_is_mapping:
  assumes "self = init sql hive_table create recreate p delimiter quoting quotechar escapechar
      mysql_conn_id hive_cli_conn_id tblproperties"
  shows "(\<not> truthy p \<longrightarrow> self_partition self = PyDict [])
       \<and> self_partition self \<noteq> PyNone
       \<and> (p = PyNone \<or> is_mapping p \<longrightarrow> is_mapping (self_partition self))
       \<and> (\<forall>a. LoadFile a \<in> set (trace (snd (execute env self (initial_state wh)))) \<longrightarrow>
            arg_partition a = self_partition self)"
proof -
  have stored: "self_partition self = py_or p (PyDict [])"
    by (simp add: assms init_def)
  have "arg_partition a = self_partition self"
    if "LoadFile a \<in> set (trace (snd (execute env self (initial_state wh))))" for a
    using that by (auto elim!: execute_load simp: load_args_def)
  moreover have "py_or p (PyDict []) \<noteq> PyNone"
    by (cases p) (simp_all add: py_or_def)
  moreover have "is_mapping (py_or p (PyDict []))" if "p = PyNone \<or> is_mapping p"
    using that by (cases p) (simp_all add: py_or_def)
  ultimately show ?thesis
    by (simp add: stored py_or_def)
qed

theorem partition_is_mapping_witness:
  "example_self =
     init ''SELECT id, name FROM t'' ''staging.t'' True False PyNone '','' None [CHR 0x22] None
       ''mysql_default'' ''hive_cli_default'' None
   \<and> \<not> truthy PyNone
   \<and> self_partition example_self = PyDict []
   \<and> is_mapping (self_partition example_self)
   \<and> LoadFile (load_args example_env example_self [(''id'', 3), (''name'', 9999)])
       \<in> set (trace (snd (execute example_env example_self (initial_state []))))
   \<and> arg_partition (load_args example_env example_self [(''id'', 3), (''name'', 9999)]) = PyDict []"
proof -
  have l: "LoadFile (load_args example_env example_self [(''id'', 3), (''name'', 9999)])
       \<in> set (trace (snd (execute example_env example_self (initial_state []))))"
    by code_simp
  from partition_is_mapping [OF example_self_def, of example_env "[]"] l example_self_def
  show ?thesis
    by simp
qed

end
